theory Spec2Isabelle
  imports Complex_Main "HOL-Library.Multiset"
begin

section \<open>Data model (shared/schema.ts)\<close>

text \<open>
  The three tables of the schema, one record per row type. An identifier is the value of a
  \<^verbatim>\<open>serial\<close> primary key. A timestamp is a point on the clock. Coordinates are only ever
  compared for equality, so they are reals here and the rounding of the \<^verbatim>\<open>real\<close> column is
  left out, as are the length limits of the \<^verbatim>\<open>varchar\<close> columns and the range of
  \<^verbatim>\<open>integer\<close>. An identity (\<^verbatim>\<open>userId\<close>) is an optional string: \<^term>\<open>None\<close> stands for
  both \<^verbatim>\<open>null\<close> and \<^verbatim>\<open>undefined\<close>.
\<close>

type_synonym timestamp = int

record Location =
  loc_id :: int
  loc_name :: string
  loc_country :: string
  loc_state :: "string option"
  loc_lat :: real
  loc_lon :: real
  loc_createdAt :: timestamp
  loc_updatedAt :: timestamp

record FavoriteLocation =
  fav_id :: int
  fav_locationId :: int
  fav_userId :: "string option"
  fav_createdAt :: timestamp

record LocationHistory =
  hist_id :: int
  hist_locationId :: int
  hist_userId :: "string option"
  hist_visitCount :: int
  hist_lastVisited :: timestamp

text \<open>
  The values accepted by \<^verbatim>\<open>insertLocationSchema\<close> and
  \<^verbatim>\<open>insertFavoriteLocationSchema\<close>.
\<close>

record InsertLocation =
  ins_name :: string
  ins_country :: string
  ins_state :: "string option"
  ins_lat :: real
  ins_lon :: real

record InsertFavoriteLocation =
  ins_locationId :: int
  ins_userId :: "string option"

text \<open>
  The database: the rows of each table in insertion order, and the next value of each
  \<^verbatim>\<open>serial\<close> sequence. A statement that violates a foreign key fails and changes no
  table.
\<close>

record store =
  locations :: "Location list"
  favoriteLocations :: "FavoriteLocation list"
  locationHistory :: "LocationHistory list"
  locations_id_seq :: int
  favorite_locations_id_seq :: int
  location_history_id_seq :: int

definition empty_store :: store where
  "empty_store = \<lparr>locations = [], favoriteLocations = [], locationHistory = [],
     locations_id_seq = 1, favorite_locations_id_seq = 1, location_history_id_seq = 1\<rparr>"

datatype store_error = ForeignKeyViolation

section \<open>Identity scoping\<close>

text \<open>
  JavaScript truthiness of an optional string: \<^verbatim>\<open>null\<close>, \<^verbatim>\<open>undefined\<close> and the
  empty string are falsy.
\<close>

fun truthy :: "string option \<Rightarrow> bool" where
  "truthy None = False"
| "truthy (Some u) = (u \<noteq> [])"

text \<open>
  \<^verbatim>\<open>userId ? eq(column, userId) : isNull(column)\<close>
\<close>

definition user_where :: "string option \<Rightarrow> string option \<Rightarrow> bool" where
  "user_where userId column = (if truthy userId then column = userId else column = None)"

text \<open>
  \<^verbatim>\<open>userId || null\<close>
\<close>

definition or_null :: "string option \<Rightarrow> string option" where
  "or_null userId = (if truthy userId then userId else None)"

section \<open>Storage (server/storage.ts)\<close>

text \<open>
  Every function takes the database and returns what the method resolves to, together
  with the new database when the method writes. \<^verbatim>\<open>now\<close> is the reading of the clock
  that the statement stores (\<^verbatim>\<open>defaultNow()\<close> on an insert, \<^verbatim>\<open>new Date()\<close> on the
  update of a history entry). A \<^verbatim>\<open>select ... limit 1\<close> without an ordering takes the
  first matching row of the table.
\<close>

definition findLocationByCoords :: "store \<Rightarrow> real \<Rightarrow> real \<Rightarrow> Location option" where
  "findLocationByCoords s lat lon =
     find (\<lambda>l. loc_lat l = lat \<and> loc_lon l = lon) (locations s)"

definition createLocation :: "store \<Rightarrow> InsertLocation \<Rightarrow> timestamp \<Rightarrow> Location \<times> store" where
  "createLocation s location now =
     (let newLocation = \<lparr>loc_id = locations_id_seq s, loc_name = ins_name location,
            loc_country = ins_country location, loc_state = ins_state location,
            loc_lat = ins_lat location, loc_lon = ins_lon location,
            loc_createdAt = now, loc_updatedAt = now\<rparr>
      in (newLocation,
          s\<lparr>locations := locations s @ [newLocation],
            locations_id_seq := locations_id_seq s + 1\<rparr>))"

text \<open>
  \<^verbatim>\<open>location_id\<close> references \<^verbatim>\<open>locations.id\<close>: an insert into one of the two
  dependent tables needs the location to exist.
\<close>

definition location_exists :: "store \<Rightarrow> int \<Rightarrow> bool" where
  "location_exists s locationId = (locationId \<in> set (map loc_id (locations s)))"

text \<open>
  An \<^verbatim>\<open>order by ... desc\<close> on one column fixes the order of rows with different keys
  only. The order in which the store hands the rows to the sort is the store's own choice:
  it is the parameter \<^verbatim>\<open>scan\<close>, which may be any permutation of the rows. The sort itself
  keeps rows with equal keys in the order of the scan.
\<close>

definition order_by_desc :: "('a \<Rightarrow> timestamp) \<Rightarrow> ('a list \<Rightarrow> 'a list) \<Rightarrow> 'a list \<Rightarrow> 'a list" where
  "order_by_desc key scan rows = sort_key (\<lambda>r. - key r) (scan rows)"

text \<open>
  \<^verbatim>\<open>from(favoriteLocations).innerJoin(locations, eq(favoriteLocations.locationId, locations.id)).where(...)\<close>:
  one row for every pair of a favorite of the identity and a location with the id it
  references.
\<close>

definition favorites_join :: "store \<Rightarrow> string option \<Rightarrow> (FavoriteLocation \<times> Location) list" where
  "favorites_join s userId =
     concat (map (\<lambda>f. map (Pair f) (filter (\<lambda>l. fav_locationId f = loc_id l) (locations s)))
       (filter (\<lambda>f. user_where userId (fav_userId f)) (favoriteLocations s)))"

definition favorite_rows ::
  "store \<Rightarrow> string option \<Rightarrow> ((FavoriteLocation \<times> Location) list \<Rightarrow> (FavoriteLocation \<times> Location) list)
     \<Rightarrow> (FavoriteLocation \<times> Location) list" where
  "favorite_rows s userId scan =
     order_by_desc (\<lambda>r. fav_createdAt (fst r)) scan (favorites_join s userId)"

definition getFavoriteLocations ::
  "store \<Rightarrow> string option \<Rightarrow> ((FavoriteLocation \<times> Location) list \<Rightarrow> (FavoriteLocation \<times> Location) list)
     \<Rightarrow> Location list" where
  "getFavoriteLocations s userId scan = map snd (favorite_rows s userId scan)"

definition addFavorite ::
  "store \<Rightarrow> InsertFavoriteLocation \<Rightarrow> timestamp \<Rightarrow> store_error + (FavoriteLocation \<times> store)" where
  "addFavorite s favorite now =
     (if location_exists s (ins_locationId favorite) then
        (let newFavorite = \<lparr>fav_id = favorite_locations_id_seq s,
               fav_locationId = ins_locationId favorite, fav_userId = ins_userId favorite,
               fav_createdAt = now\<rparr>
         in Inr (newFavorite,
               s\<lparr>favoriteLocations := favoriteLocations s @ [newFavorite],
                 favorite_locations_id_seq := favorite_locations_id_seq s + 1\<rparr>))
      else Inl ForeignKeyViolation)"

definition favorite_where :: "int \<Rightarrow> string option \<Rightarrow> FavoriteLocation \<Rightarrow> bool" where
  "favorite_where locationId userId f =
     (fav_locationId f = locationId \<and> user_where userId (fav_userId f))"

definition removeFavorite :: "store \<Rightarrow> int \<Rightarrow> string option \<Rightarrow> store" where
  "removeFavorite s locationId userId =
     s\<lparr>favoriteLocations :=
         filter (\<lambda>f. \<not> favorite_where locationId userId f) (favoriteLocations s)\<rparr>"

definition isFavorite :: "store \<Rightarrow> int \<Rightarrow> string option \<Rightarrow> bool" where
  "isFavorite s locationId userId =
     (case find (favorite_where locationId userId) (favoriteLocations s) of
        None \<Rightarrow> False
      | Some favorite \<Rightarrow> True)"

text \<open>
  The limit is a number of rows; it is 10 when the caller gives none.
\<close>

definition history_join :: "store \<Rightarrow> string option \<Rightarrow> (LocationHistory \<times> Location) list" where
  "history_join s userId =
     concat (map (\<lambda>h. map (Pair h) (filter (\<lambda>l. hist_locationId h = loc_id l) (locations s)))
       (filter (\<lambda>h. user_where userId (hist_userId h)) (locationHistory s)))"

definition history_rows ::
  "store \<Rightarrow> string option \<Rightarrow> nat option
     \<Rightarrow> ((LocationHistory \<times> Location) list \<Rightarrow> (LocationHistory \<times> Location) list)
     \<Rightarrow> (LocationHistory \<times> Location) list" where
  "history_rows s userId limit scan =
     take (case limit of None \<Rightarrow> 10 | Some n \<Rightarrow> n)
       (order_by_desc (\<lambda>r. hist_lastVisited (fst r)) scan (history_join s userId))"

definition getLocationHistory ::
  "store \<Rightarrow> string option \<Rightarrow> nat option
     \<Rightarrow> ((LocationHistory \<times> Location) list \<Rightarrow> (LocationHistory \<times> Location) list)
     \<Rightarrow> Location list" where
  "getLocationHistory s userId limit scan = map snd (history_rows s userId limit scan)"

definition history_where :: "int \<Rightarrow> string option \<Rightarrow> LocationHistory \<Rightarrow> bool" where
  "history_where locationId userId h =
     (hist_locationId h = locationId \<and> user_where userId (hist_userId h))"

definition addToHistory :: "store \<Rightarrow> int \<Rightarrow> string option \<Rightarrow> timestamp \<Rightarrow> store_error + store" where
  "addToHistory s locationId userId now =
     (case find (history_where locationId userId) (locationHistory s) of
        Some existingHistory \<Rightarrow>
          Inr (s\<lparr>locationHistory :=
                 map (\<lambda>h. if hist_id h = hist_id existingHistory
                          then h\<lparr>hist_visitCount := hist_visitCount existingHistory + 1,
                                 hist_lastVisited := now\<rparr>
                          else h)
                   (locationHistory s)\<rparr>)
      | None \<Rightarrow>
          if location_exists s locationId then
            Inr (s\<lparr>locationHistory := locationHistory s @
                     [\<lparr>hist_id = location_history_id_seq s, hist_locationId = locationId,
                       hist_userId = or_null userId, hist_visitCount = 1,
                       hist_lastVisited = now\<rparr>],
                   location_history_id_seq := location_history_id_seq s + 1\<rparr>)
          else Inl ForeignKeyViolation)"

definition clearHistory :: "store \<Rightarrow> string option \<Rightarrow> store" where
  "clearHistory s userId =
     s\<lparr>locationHistory :=
         filter (\<lambda>h. \<not> user_where userId (hist_userId h)) (locationHistory s)\<rparr>"

section \<open>Routes (registerRoutes, location management endpoints)\<close>

text \<open>
  The JSON body of the two POST requests. \<^term>\<open>None\<close> is a field that is absent; for the
  required fields \<^verbatim>\<open>name\<close>, \<^verbatim>\<open>lat\<close> and \<^verbatim>\<open>lon\<close> it is also a value that the
  schema rejects.
\<close>

record location_body =
  body_name :: "string option"
  body_country :: "string option"
  body_state :: "string option"
  body_lat :: "real option"
  body_lon :: "real option"
  body_userId :: "string option"

text \<open>
  What a handler answers: the two success bodies that carry a location, status 409,
  \<^verbatim>\<open>{ success: true }\<close>, and status 500 from the \<^verbatim>\<open>catch\<close> block.
\<close>

datatype response =
  FavoriteAdded Location FavoriteLocation
  | AlreadyFavorited
  | HistoryAdded Location
  | Success
  | ServerError

text \<open>
  \<^verbatim>\<open>insertLocationSchema.parse\<close>; \<^term>\<open>None\<close> is the exception of a failed parse.
\<close>

definition insertLocationSchema_parse :: "location_body \<Rightarrow> InsertLocation option" where
  "insertLocationSchema_parse body =
     (case (body_name body, body_lat body, body_lon body) of
        (Some name, Some lat, Some lon) \<Rightarrow>
          Some \<lparr>ins_name = name,
                ins_country = (case body_country body of None \<Rightarrow> ''Unknown'' | Some c \<Rightarrow> c),
                ins_state = body_state body, ins_lat = lat, ins_lon = lon\<rparr>
      | _ \<Rightarrow> None)"

text \<open>
  Both POST handlers start with the same statements: look the coordinates up, and create
  the location when the lookup finds nothing.
\<close>

definition find_or_create :: "store \<Rightarrow> InsertLocation \<Rightarrow> timestamp \<Rightarrow> Location \<times> store" where
  "find_or_create s locationData now =
     (case findLocationByCoords s (ins_lat locationData) (ins_lon locationData) of
        Some location \<Rightarrow> (location, s)
      | None \<Rightarrow> createLocation s locationData now)"

definition post_favorites :: "store \<Rightarrow> location_body \<Rightarrow> timestamp \<Rightarrow> response \<times> store" where
  "post_favorites s body now =
     (case insertLocationSchema_parse body of
        None \<Rightarrow> (ServerError, s)
      | Some locationData \<Rightarrow>
          (case find_or_create s locationData now of
             (location, s1) \<Rightarrow>
               if isFavorite s1 (loc_id location) (body_userId body) then (AlreadyFavorited, s1)
               else
                 (case addFavorite s1
                         \<lparr>ins_locationId = loc_id location,
                          ins_userId = or_null (body_userId body)\<rparr> now of
                    Inl e \<Rightarrow> (ServerError, s1)
                  | Inr (favorite, s2) \<Rightarrow> (FavoriteAdded location favorite, s2))))"

text \<open>
  The DELETE handler for one favorite; \<^verbatim>\<open>locationId\<close> is the number that
  \<^verbatim>\<open>parseInt\<close> reads from the path.
\<close>

definition delete_favorite :: "store \<Rightarrow> int \<Rightarrow> string option \<Rightarrow> response \<times> store" where
  "delete_favorite s locationId userId = (Success, removeFavorite s locationId userId)"

definition post_history :: "store \<Rightarrow> location_body \<Rightarrow> timestamp \<Rightarrow> response \<times> store" where
  "post_history s body now =
     (case insertLocationSchema_parse body of
        None \<Rightarrow> (ServerError, s)
      | Some locationData \<Rightarrow>
          (case find_or_create s locationData now of
             (location, s1) \<Rightarrow>
               (case addToHistory s1 (loc_id location) (or_null (body_userId body)) now of
                  Inl e \<Rightarrow> (ServerError, s1)
                | Inr s2 \<Rightarrow> (HistoryAdded location, s2))))"

definition delete_history :: "store \<Rightarrow> string option \<Rightarrow> response \<times> store" where
  "delete_history s userId = (Success, clearHistory s (or_null userId))"

text \<open>
  The location in the body of an answer, if it has one.
\<close>

definition response_location :: "response \<Rightarrow> Location option" where
  "response_location r =
     (case r of FavoriteAdded location favorite \<Rightarrow> Some location
      | HistoryAdded location \<Rightarrow> Some location
      | _ \<Rightarrow> None)"

text \<open>
  The states that the four writing routes reach from the empty database, one request
  after the other.
\<close>

inductive reachable :: "store \<Rightarrow> bool" where
  init: "reachable empty_store"
| add_favorite: "reachable s \<Longrightarrow> reachable (snd (post_favorites s body now))"
| remove_favorite: "reachable s \<Longrightarrow> reachable (snd (delete_favorite s locationId userId))"
| add_history: "reachable s \<Longrightarrow> reachable (snd (post_history s body now))"
| clear_history: "reachable s \<Longrightarrow> reachable (snd (delete_history s userId))"

section \<open>Constraints of the schema\<close>


definition history_key :: "LocationHistory \<Rightarrow> int \<times> string option" where
  "history_key h = (hist_locationId h, hist_userId h)"

text \<open>
  The primary keys and the foreign keys that the tables declare.
\<close>

definition schema_constraints :: "store \<Rightarrow> bool" where
  "schema_constraints s \<longleftrightarrow>
     distinct (map loc_id (locations s))
     \<and> distinct (map fav_id (favoriteLocations s))
     \<and> distinct (map hist_id (locationHistory s))
     \<and> (\<forall>f \<in> set (favoriteLocations s). location_exists s (fav_locationId f))
     \<and> (\<forall>h \<in> set (locationHistory s). location_exists s (hist_locationId h))"

text \<open>
  Every sequence is past the identifiers it has handed out.
\<close>

definition sequences_ahead :: "store \<Rightarrow> bool" where
  "sequences_ahead s \<longleftrightarrow>
     (\<forall>l \<in> set (locations s). loc_id l < locations_id_seq s)
     \<and> (\<forall>f \<in> set (favoriteLocations s). fav_id f < favorite_locations_id_seq s)
     \<and> (\<forall>h \<in> set (locationHistory s). hist_id h < location_history_id_seq s)"

definition wf_store :: "store \<Rightarrow> bool" where
  "wf_store s \<longleftrightarrow> schema_constraints s \<and> sequences_ahead s"

text \<open>
  A history entry after one more visit, and the entry of a first visit.
\<close>

definition visit :: "timestamp \<Rightarrow> LocationHistory \<Rightarrow> LocationHistory" where
  "visit now h = h\<lparr>hist_visitCount := hist_visitCount h + 1, hist_lastVisited := now\<rparr>"

definition first_visit :: "store \<Rightarrow> int \<Rightarrow> string option \<Rightarrow> timestamp \<Rightarrow> LocationHistory" where
  "first_visit s locationId userId now =
     \<lparr>hist_id = location_history_id_seq s, hist_locationId = locationId,
      hist_userId = or_null userId, hist_visitCount = 1, hist_lastVisited = now\<rparr>"

section \<open>Example requests and states\<close>

definition paris :: location_body where
  "paris = \<lparr>body_name = Some ''Paris'', body_country = Some ''FR'', body_state = None,
     body_lat = Some 48.8566, body_lon = Some 2.3522, body_userId = None\<rparr>"

definition new_york :: location_body where
  "new_york = \<lparr>body_name = Some ''New York'', body_country = None, body_state = Some ''NY'',
     body_lat = Some 40.7128, body_lon = Some (- 74.0060), body_userId = Some ''u1''\<rparr>"

definition tokyo :: location_body where
  "tokyo = \<lparr>body_name = Some ''Tokyo'', body_country = Some ''JP'', body_state = None,
     body_lat = Some 35.6762, body_lon = Some 139.6503, body_userId = None\<rparr>"

definition paris_data :: InsertLocation where
  "paris_data = \<lparr>ins_name = ''Paris'', ins_country = ''FR'', ins_state = None,
     ins_lat = 48.8566, ins_lon = 2.3522\<rparr>"

definition paris_location :: Location where
  "paris_location = \<lparr>loc_id = 1, loc_name = ''Paris'', loc_country = ''FR'', loc_state = None,
     loc_lat = 48.8566, loc_lon = 2.3522, loc_createdAt = 100, loc_updatedAt = 100\<rparr>"

definition paris_created :: store where
  "paris_created = \<lparr>locations = [paris_location], favoriteLocations = [], locationHistory = [],
     locations_id_seq = 2, favorite_locations_id_seq = 1, location_history_id_seq = 1\<rparr>"

definition paris_visited :: "int \<Rightarrow> timestamp \<Rightarrow> store" where
  "paris_visited n t = paris_created\<lparr>locationHistory :=
       [\<lparr>hist_id = 1, hist_locationId = 1, hist_userId = None, hist_visitCount = n,
         hist_lastVisited = t\<rparr>],
     location_history_id_seq := 2\<rparr>"








definition two_identities :: store where
  "two_identities = snd (post_history (paris_visited 1 100) new_york 200)"

definition tie_store :: store where
  "tie_store = snd (post_favorites (snd (post_favorites empty_store paris 100)) tokyo 100)"

definition two_favorites :: store where
  "two_favorites = snd (post_favorites (snd (post_favorites empty_store paris 100)) tokyo 200)"

definition city :: "int \<Rightarrow> Location" where
  "city i = \<lparr>loc_id = i, loc_name = ''city'', loc_country = ''Unknown'', loc_state = None,
     loc_lat = of_int i, loc_lon = 0, loc_createdAt = 10 * i, loc_updatedAt = 10 * i\<rparr>"

definition entry :: "int \<Rightarrow> int \<Rightarrow> timestamp \<Rightarrow> LocationHistory" where
  "entry i n t = \<lparr>hist_id = i, hist_locationId = i, hist_userId = None, hist_visitCount = n,
     hist_lastVisited = t\<rparr>"

definition five_visits :: store where
  "five_visits = \<lparr>locations = [city 1, city 2, city 3, city 4, city 5],
     favoriteLocations = [],
     locationHistory = [entry 1 2 60, entry 2 1 20, entry 3 1 30, entry 4 1 40, entry 5 1 50],
     locations_id_seq = 6, favorite_locations_id_seq = 1, location_history_id_seq = 6\<rparr>"

section \<open>Identities and predicates\<close>

lemma user_where_empty [simp]: "user_where (Some []) = user_where None"
  by (simp add: user_where_def fun_eq_iff)

lemma or_null_empty [simp]: "or_null (Some []) = None" "or_null None = None"
  by (simp_all add: or_null_def)

lemma or_null_idem [simp]: "or_null (or_null userId) = or_null userId"
  by (cases userId) (simp_all add: or_null_def)

lemma user_where_or_null [simp]: "user_where (or_null userId) = user_where userId"
  by (cases userId) (simp_all add: or_null_def user_where_def fun_eq_iff)


lemma user_where_iff: "user_where userId column \<longleftrightarrow> column = or_null userId"
  by (simp add: user_where_def or_null_def)

lemma favorite_where_empty [simp]: "favorite_where l (Some []) = favorite_where l None"
  by (simp add: favorite_where_def fun_eq_iff)

lemma history_where_empty [simp]: "history_where l (Some []) = history_where l None"
  by (simp add: history_where_def fun_eq_iff)

lemma history_where_or_null [simp]: "history_where l (or_null userId) = history_where l userId"
  by (simp add: history_where_def fun_eq_iff)




lemma history_where_visit [simp]: "history_where l u (visit now h) = history_where l u h"
  by (simp add: history_where_def visit_def)


lemma history_key_update [simp]:
  "history_key (h\<lparr>hist_visitCount := c, hist_lastVisited := t\<rparr>) = history_key h"
  by (simp add: history_key_def)

section \<open>Lists\<close>

lemma find_append_cases:
  "find P (xs @ ys) = (case find P xs of None \<Rightarrow> find P ys | Some x \<Rightarrow> Some x)"
  by (induction xs) simp_all



lemma sorted_wrt_take_drop:
  assumes "sorted_wrt R xs"
  shows "\<forall>x \<in> set (take n xs). \<forall>y \<in> set (drop n xs). R x y"
proof -
  from assms have "sorted_wrt R (take n xs @ drop n xs)" by simp
  then show ?thesis unfolding sorted_wrt_append by blast
qed

lemma mset_take_drop: "mset xs - mset (take n xs) = mset (drop n xs)"
proof -
  have "mset xs = mset (take n xs) + mset (drop n xs)"
    by (metis append_take_drop_id mset_append)
  then show ?thesis by simp
qed


section \<open>Storage functions\<close>






lemma findLocationByCoords_cong:
  "locations s' = locations s \<Longrightarrow> findLocationByCoords s' lat lon = findLocationByCoords s lat lon"
  by (simp add: findLocationByCoords_def)

lemma findLocationByCoords_exists:
  "findLocationByCoords s lat lon = Some l \<Longrightarrow> location_exists s (loc_id l)"
  by (auto simp: findLocationByCoords_def location_exists_def find_Some_iff)

lemma addFavorite_Inr:
  "addFavorite s favorite now = Inr (f, s') \<Longrightarrow>
     location_exists s (ins_locationId favorite)
     \<and> f = \<lparr>fav_id = favorite_locations_id_seq s, fav_locationId = ins_locationId favorite,
            fav_userId = ins_userId favorite, fav_createdAt = now\<rparr>
     \<and> s' = s\<lparr>favoriteLocations := favoriteLocations s @ [f],
              favorite_locations_id_seq := favorite_locations_id_seq s + 1\<rparr>"
  by (auto simp: addFavorite_def Let_def split: if_splits)

lemma addFavorite_exists:
  "location_exists s (ins_locationId favorite) \<Longrightarrow> \<exists>f s'. addFavorite s favorite now = Inr (f, s')"
  by (simp add: addFavorite_def Let_def)

lemma addToHistory_locations:
  "addToHistory s locationId userId now = Inr s' \<Longrightarrow>
     locations s' = locations s \<and> favoriteLocations s' = favoriteLocations s"
  by (auto simp: addToHistory_def split: option.splits if_splits)

lemma addToHistory_exists:
  "location_exists s locationId \<Longrightarrow> \<exists>s'. addToHistory s locationId userId now = Inr s'"
  by (simp add: addToHistory_def split: option.splits)

lemma addToHistory_existing:
  assumes "find (history_where l u) (locationHistory s) = Some e"
  shows "addToHistory s l u now =
     Inr (s\<lparr>locationHistory :=
            map (\<lambda>h. if hist_id h = hist_id e then visit now h\<lparr>hist_visitCount := hist_visitCount e + 1\<rparr> else h)
              (locationHistory s)\<rparr>)"
  using assms by (simp add: addToHistory_def visit_def)





lemma history_join_clear_other:
  assumes "or_null other \<noteq> or_null userId"
  shows "history_join (clearHistory s userId) other = history_join s other"
proof -
  have "filter (\<lambda>h. user_where other (hist_userId h))
          (filter (\<lambda>h. \<not> user_where userId (hist_userId h)) (locationHistory s)) =
        filter (\<lambda>h. user_where other (hist_userId h)) (locationHistory s)"
    using assms by (auto simp: user_where_iff intro: filter_cong)
  then show ?thesis by (simp add: history_join_def clearHistory_def)
qed

section \<open>Route handlers\<close>

lemma parse_userId [simp]:
  "insertLocationSchema_parse (body\<lparr>body_userId := u\<rparr>) = insertLocationSchema_parse body"
  by (simp add: insertLocationSchema_parse_def split: option.splits)

lemma parse_Some_iff:
  "insertLocationSchema_parse body = Some d \<longleftrightarrow>
     (\<exists>name lat lon. body_name body = Some name \<and> body_lat body = Some lat \<and> body_lon body = Some lon
        \<and> d = \<lparr>ins_name = name,
                ins_country = (case body_country body of None \<Rightarrow> ''Unknown'' | Some c \<Rightarrow> c),
                ins_state = body_state body, ins_lat = lat, ins_lon = lon\<rparr>)"
  by (auto simp: insertLocationSchema_parse_def split: option.splits)

lemma parse_coords:
  "insertLocationSchema_parse body = Some d \<Longrightarrow>
     body_lat body = Some (ins_lat d) \<and> body_lon body = Some (ins_lon d)"
  by (auto simp: parse_Some_iff)

lemma find_or_create_found:
  "find_or_create s d now = (l, s') \<Longrightarrow>
     findLocationByCoords s' (ins_lat d) (ins_lon d) = Some l"
  by (auto simp: find_or_create_def findLocationByCoords_def createLocation_def Let_def
        find_append_cases split: option.splits)

lemma find_or_create_hit:
  "findLocationByCoords s (ins_lat d) (ins_lon d) = Some l \<Longrightarrow> find_or_create s d now = (l, s)"
  by (simp add: find_or_create_def)

lemma find_or_create_exists:
  "find_or_create s d now = (l, s') \<Longrightarrow> location_exists s' (loc_id l)"
  by (rule findLocationByCoords_exists) (rule find_or_create_found)


lemma post_favorites_cases:
  assumes "insertLocationSchema_parse body = Some d" and "find_or_create s d now = (l, sm)"
  shows "post_favorites s body now = (AlreadyFavorited, sm) \<and> isFavorite sm (loc_id l) (body_userId body)
       \<or> (\<exists>f s'. post_favorites s body now = (FavoriteAdded l f, s')
             \<and> \<not> isFavorite sm (loc_id l) (body_userId body)
             \<and> addFavorite sm \<lparr>ins_locationId = loc_id l, ins_userId = or_null (body_userId body)\<rparr> now
                 = Inr (f, s'))"
proof (cases "isFavorite sm (loc_id l) (body_userId body)")
  case True
  with assms show ?thesis by (simp add: post_favorites_def)
next
  case False
  from assms(2) have "location_exists sm (loc_id l)" by (rule find_or_create_exists)
  then obtain f s' where
    "addFavorite sm \<lparr>ins_locationId = loc_id l, ins_userId = or_null (body_userId body)\<rparr> now
       = Inr (f, s')"
    using addFavorite_exists [of sm "\<lparr>ins_locationId = loc_id l, ins_userId = or_null (body_userId body)\<rparr>" now]
    by auto
  with assms False show ?thesis by (simp add: post_favorites_def)
qed

lemma post_history_cases:
  assumes "insertLocationSchema_parse body = Some d" and "find_or_create s d now = (l, sm)"
  shows "\<exists>s'. post_history s body now = (HistoryAdded l, s')
           \<and> addToHistory sm (loc_id l) (or_null (body_userId body)) now = Inr s'"
proof -
  from assms(2) have "location_exists sm (loc_id l)" by (rule find_or_create_exists)
  then obtain s' where "addToHistory sm (loc_id l) (or_null (body_userId body)) now = Inr s'"
    using addToHistory_exists by blast
  with assms show ?thesis by (simp add: post_history_def)
qed

lemma post_favorites_invalid:
  "insertLocationSchema_parse body = None \<Longrightarrow> post_favorites s body now = (ServerError, s)"
  by (simp add: post_favorites_def)

lemma post_history_invalid:
  "insertLocationSchema_parse body = None \<Longrightarrow> post_history s body now = (ServerError, s)"
  by (simp add: post_history_def)



lemma route_step:
  assumes r: "r = post_favorites \<or> r = post_history"
    and p: "insertLocationSchema_parse b = Some d"
    and f: "find_or_create s d t = (l, sm)"
  shows "locations (snd (r s b t)) = locations sm
       \<and> response_location (fst (r s b t)) \<in> {None, Some l}"
proof -
  from r show ?thesis
  proof
    assume pf: "r = post_favorites"
    from post_favorites_cases [OF p f] show ?thesis
    proof
      assume "post_favorites s b t = (AlreadyFavorited, sm) \<and> isFavorite sm (loc_id l) (body_userId b)"
      with pf show ?thesis by (simp add: response_location_def)
    next
      assume "\<exists>f s'. post_favorites s b t = (FavoriteAdded l f, s')
             \<and> \<not> isFavorite sm (loc_id l) (body_userId b)
             \<and> addFavorite sm \<lparr>ins_locationId = loc_id l, ins_userId = or_null (body_userId b)\<rparr> t
                 = Inr (f, s')"
      then obtain fv s' where res: "post_favorites s b t = (FavoriteAdded l fv, s')"
        and add: "addFavorite sm \<lparr>ins_locationId = loc_id l, ins_userId = or_null (body_userId b)\<rparr> t
                 = Inr (fv, s')"
        by blast
      from addFavorite_Inr [OF add] have "locations s' = locations sm"
        by (metis (no_types, lifting) store.select_convs(1) store.surjective store.update_convs(2,5))
      with pf res show ?thesis by (simp add: response_location_def)
    qed
  next
    assume ph: "r = post_history"
    from post_history_cases [OF p f] obtain s' where
      res: "post_history s b t = (HistoryAdded l, s')"
      and add: "addToHistory sm (loc_id l) (or_null (body_userId b)) t = Inr s'"
      by blast
    from addToHistory_locations [OF add] ph res show ?thesis
      by (simp add: response_location_def)
  qed
qed

section \<open>Unique pairs\<close>








section \<open>The schema constraints hold in every reachable state\<close>

lemma location_exists_mono:
  "set (locations s) \<subseteq> set (locations s') \<Longrightarrow> location_exists s i \<Longrightarrow> location_exists s' i"
  by (auto simp: location_exists_def)

lemma createLocation_wf:
  assumes "wf_store s" and "createLocation s d now = (l, s')"
  shows "wf_store s'"
  using assms
  by (fastforce simp: wf_store_def schema_constraints_def sequences_ahead_def createLocation_def
        Let_def location_exists_def)

lemma find_or_create_wf:
  assumes "wf_store s" and "find_or_create s d now = (l, s')"
  shows "wf_store s'"
proof (cases "findLocationByCoords s (ins_lat d) (ins_lon d)")
  case None
  with assms(2) have "createLocation s d now = (l, s')" by (simp add: find_or_create_def)
  with assms(1) show ?thesis by (rule createLocation_wf)
next
  case (Some a)
  with assms show ?thesis by (simp add: find_or_create_def)
qed

lemma addFavorite_wf:
  assumes "wf_store s" and "addFavorite s favorite now = Inr (f, s')"
  shows "wf_store s'"
  using assms(1) addFavorite_Inr [OF assms(2)]
  by (fastforce simp: wf_store_def schema_constraints_def sequences_ahead_def location_exists_def)

lemma addToHistory_wf:
  assumes wf: "wf_store s" and add: "addToHistory s l u now = Inr s'"
  shows "wf_store s'"
proof (cases "find (history_where l u) (locationHistory s)")
  case None
  with add have ex: "location_exists s l"
    and s': "s' = s\<lparr>locationHistory := locationHistory s @ [first_visit s l u now],
            location_history_id_seq := location_history_id_seq s + 1\<rparr>"
    by (auto simp: addToHistory_def first_visit_def split: if_splits)
  from wf ex show ?thesis unfolding s'
    by (fastforce simp: wf_store_def schema_constraints_def sequences_ahead_def location_exists_def
          first_visit_def)
next
  case (Some e)
  let ?upd = "\<lambda>h. if hist_id h = hist_id e then visit now h\<lparr>hist_visitCount := hist_visitCount e + 1\<rparr> else h"
  from add have s': "s' = s\<lparr>locationHistory := map ?upd (locationHistory s)\<rparr>"
    by (simp add: addToHistory_existing [OF Some])
  then have hs: "locationHistory s' = map ?upd (locationHistory s)"
    and same: "locations s' = locations s" "favoriteLocations s' = favoriteLocations s"
      "locations_id_seq s' = locations_id_seq s"
      "favorite_locations_id_seq s' = favorite_locations_id_seq s"
      "location_history_id_seq s' = location_history_id_seq s"
    by simp_all
  have ids: "hist_id \<circ> ?upd = hist_id" and fks: "hist_locationId \<circ> ?upd = hist_locationId"
    by (auto simp: fun_eq_iff visit_def)
  have "map hist_id (locationHistory s') = map hist_id (locationHistory s)"
    and "map hist_locationId (locationHistory s') = map hist_locationId (locationHistory s)"
    by (simp_all add: hs ids fks)
  then have d: "distinct (map hist_id (locationHistory s')) = distinct (map hist_id (locationHistory s))"
    and i: "hist_id ` set (locationHistory s') = hist_id ` set (locationHistory s)"
    and k: "hist_locationId ` set (locationHistory s') = hist_locationId ` set (locationHistory s)"
    by (simp, metis list.set_map, metis list.set_map)
  have "(\<forall>h \<in> set (locationHistory s'). hist_id h < location_history_id_seq s') \<longleftrightarrow>
          (\<forall>h \<in> set (locationHistory s). hist_id h < location_history_id_seq s)"
    using i by (auto simp: same image_iff set_eq_iff) metis+
  moreover have "(\<forall>h \<in> set (locationHistory s'). location_exists s' (hist_locationId h)) \<longleftrightarrow>
          (\<forall>h \<in> set (locationHistory s). location_exists s (hist_locationId h))"
    using k by (auto simp: same location_exists_def image_iff set_eq_iff) metis+
  ultimately show ?thesis using wf d
    by (simp add: wf_store_def schema_constraints_def sequences_ahead_def same location_exists_def)
qed

lemma removeFavorite_wf: "wf_store s \<Longrightarrow> wf_store (removeFavorite s l u)"
  by (auto simp: wf_store_def schema_constraints_def sequences_ahead_def location_exists_def
        removeFavorite_def distinct_map_filter)

lemma clearHistory_wf: "wf_store s \<Longrightarrow> wf_store (clearHistory s u)"
  by (auto simp: wf_store_def schema_constraints_def sequences_ahead_def location_exists_def
        clearHistory_def distinct_map_filter)

lemma post_favorites_wf:
  assumes "wf_store s"
  shows "wf_store (snd (post_favorites s body now))"
proof (cases "insertLocationSchema_parse body")
  case None
  with assms show ?thesis by (simp add: post_favorites_invalid)
next
  case (Some d)
  obtain l sm where f: "find_or_create s d now = (l, sm)" by (cases "find_or_create s d now")
  from find_or_create_wf [OF assms f] have wm: "wf_store sm" .
  from post_favorites_cases [OF Some f] show ?thesis
  proof (elim disjE exE conjE)
    assume "post_favorites s body now = (AlreadyFavorited, sm)"
    with wm show ?thesis by simp
  next
    fix fv s'
    assume res: "post_favorites s body now = (FavoriteAdded l fv, s')"
      and add: "addFavorite sm \<lparr>ins_locationId = loc_id l, ins_userId = or_null (body_userId body)\<rparr> now
                 = Inr (fv, s')"
    from addFavorite_wf [OF wm add] res show ?thesis by simp
  qed
qed

lemma post_history_wf:
  assumes "wf_store s"
  shows "wf_store (snd (post_history s body now))"
proof (cases "insertLocationSchema_parse body")
  case None
  with assms show ?thesis by (simp add: post_history_invalid)
next
  case (Some d)
  obtain l sm where f: "find_or_create s d now = (l, sm)" by (cases "find_or_create s d now")
  from find_or_create_wf [OF assms f] have wm: "wf_store sm" .
  from post_history_cases [OF Some f] obtain s' where
    res: "post_history s body now = (HistoryAdded l, s')"
    and add: "addToHistory sm (loc_id l) (or_null (body_userId body)) now = Inr s'"
    by blast
  from addToHistory_wf [OF wm add] res show ?thesis by simp
qed

lemma reachable_wf: "reachable s \<Longrightarrow> wf_store s"
proof (induction rule: reachable.induct)
  case init
  show ?case
    by (simp add: wf_store_def schema_constraints_def sequences_ahead_def empty_store_def)
next
  case (add_favorite s body now)
  then show ?case by (simp add: post_favorites_wf)
next
  case (remove_favorite s locationId userId)
  then show ?case by (simp add: delete_favorite_def removeFavorite_wf)
next
  case (add_history s body now)
  then show ?case by (simp add: post_history_wf)
next
  case (clear_history s userId)
  then show ?case by (simp add: delete_history_def clearHistory_wf)
qed

lemma reachable_schema_constraints: "reachable s \<Longrightarrow> schema_constraints s"
  using reachable_wf by (simp add: wf_store_def)

section \<open>Ordering and joins\<close>

lemma order_by_desc_sorted:
  "sorted_wrt (\<lambda>a b. key b \<le> key a) (order_by_desc key scan rows)"
proof -
  have "sorted (map (\<lambda>r. - key r) (sort_key (\<lambda>r. - key r) (scan rows)))"
    by (rule sorted_sort_key)
  then show ?thesis by (simp add: order_by_desc_def sorted_map)
qed

lemma order_by_desc_mset:
  "mset (scan rows) = mset rows \<Longrightarrow> mset (order_by_desc key scan rows) = mset rows"
  by (simp add: order_by_desc_def)

lemma unique_location:
  assumes "distinct (map loc_id locs)" and "i \<in> set (map loc_id locs)"
  shows "\<exists>l. filter (\<lambda>l. i = loc_id l) locs = [l]"
  using assms
proof (induction locs)
  case Nil
  then show ?case by simp
next
  case (Cons a locs)
  show ?case
  proof (cases "i = loc_id a")
    case True
    with Cons.prems(1) have "filter (\<lambda>l. i = loc_id l) locs = []"
      by (auto simp: filter_empty_conv)
    with True show ?thesis by simp
  next
    case False
    with Cons show ?thesis by auto
  qed
qed

lemma inner_join_fst:
  assumes "distinct (map loc_id locs)"
    and "\<forall>r \<in> set rs. fk r \<in> set (map loc_id locs)"
  shows "map fst (concat (map (\<lambda>r. map (Pair r) (filter (\<lambda>l. fk r = loc_id l) locs)) rs)) = rs"
  using assms(2)
proof (induction rs)
  case Nil
  show ?case by simp
next
  case (Cons r rs)
  from unique_location [OF assms(1), of "fk r"] Cons.prems
  obtain l where "filter (\<lambda>l. fk r = loc_id l) locs = [l]" by auto
  with Cons show ?case by simp
qed

lemma inner_join_set:
  "(r, l) \<in> set (concat (map (\<lambda>r. map (Pair r) (filter (\<lambda>l. fk r = loc_id l) locs)) rs))
     \<longleftrightarrow> r \<in> set rs \<and> l \<in> set locs \<and> fk r = loc_id l"
  by auto

lemma history_join_fst:
  "schema_constraints s \<Longrightarrow>
     map fst (history_join s userId) =
       filter (\<lambda>h. user_where userId (hist_userId h)) (locationHistory s)"
  unfolding history_join_def
  by (rule inner_join_fst) (auto simp: schema_constraints_def location_exists_def)

lemma favorites_join_fst:
  "schema_constraints s \<Longrightarrow>
     map fst (favorites_join s userId) =
       filter (\<lambda>f. user_where userId (fav_userId f)) (favoriteLocations s)"
  unfolding favorites_join_def
  by (rule inner_join_fst) (auto simp: schema_constraints_def location_exists_def)

lemma history_join_set:
  "(h, l) \<in> set (history_join s userId) \<longleftrightarrow>
     h \<in> set (locationHistory s) \<and> hist_userId h = or_null userId
     \<and> l \<in> set (locations s) \<and> loc_id l = hist_locationId h"
  unfolding history_join_def inner_join_set by (auto simp: user_where_iff)

lemma favorites_join_set:
  "(f, l) \<in> set (favorites_join s userId) \<longleftrightarrow>
     f \<in> set (favoriteLocations s) \<and> fav_userId f = or_null userId
     \<and> l \<in> set (locations s) \<and> loc_id l = fav_locationId f"
  unfolding favorites_join_def inner_join_set by (auto simp: user_where_iff)

section \<open>The examples, evaluated\<close>

lemmas eval_defs =
  empty_store_def paris_def new_york_def post_favorites_def post_history_def
  delete_favorite_def delete_history_def insertLocationSchema_parse_def find_or_create_def
  findLocationByCoords_def createLocation_def location_exists_def addFavorite_def
  removeFavorite_def isFavorite_def favorite_where_def history_where_def addToHistory_def
  clearHistory_def user_where_def or_null_def Let_def

lemmas query_defs =
  getFavoriteLocations_def favorite_rows_def favorites_join_def getLocationHistory_def
  history_rows_def history_join_def order_by_desc_def user_where_def


lemma parse_paris: "insertLocationSchema_parse paris = Some paris_data"
  by (simp add: insertLocationSchema_parse_def paris_def paris_data_def)

lemma create_paris: "find_or_create empty_store paris_data 100 = (paris_location, paris_created)"
  by (simp add: eval_defs paris_data_def paris_location_def paris_created_def)

lemma visit_paris_1: "post_history empty_store paris 100 = (HistoryAdded paris_location, paris_visited 1 100)"
  by (simp add: eval_defs paris_created_def paris_location_def paris_visited_def)

lemma visit_paris_next:
  "post_history (paris_visited n t) paris t' = (HistoryAdded paris_location, paris_visited (n + 1) t')"
  by (simp add: eval_defs paris_created_def paris_location_def paris_visited_def)


lemma two_identities_eq:
  "two_identities = \<lparr>locations = [paris_location,
        \<lparr>loc_id = 2, loc_name = ''New York'', loc_country = ''Unknown'',
          loc_state = Some ''NY'', loc_lat = 40.7128, loc_lon = - 74.0060,
          loc_createdAt = 200, loc_updatedAt = 200\<rparr>],
      favoriteLocations = [],
      locationHistory = [
        \<lparr>hist_id = 1, hist_locationId = 1, hist_userId = None, hist_visitCount = 1,
          hist_lastVisited = 100\<rparr>,
        \<lparr>hist_id = 2, hist_locationId = 2, hist_userId = Some ''u1'', hist_visitCount = 1,
          hist_lastVisited = 200\<rparr>],
      locations_id_seq = 3, favorite_locations_id_seq = 1, location_history_id_seq = 3\<rparr>"
  by (simp add: two_identities_def eval_defs paris_visited_def paris_created_def paris_location_def)

lemma tie_store_eq:
  "tie_store = \<lparr>locations = [paris_location,
        \<lparr>loc_id = 2, loc_name = ''Tokyo'', loc_country = ''JP'', loc_state = None,
          loc_lat = 35.6762, loc_lon = 139.6503, loc_createdAt = 100, loc_updatedAt = 100\<rparr>],
      favoriteLocations = [
        \<lparr>fav_id = 1, fav_locationId = 1, fav_userId = None, fav_createdAt = 100\<rparr>,
        \<lparr>fav_id = 2, fav_locationId = 2, fav_userId = None, fav_createdAt = 100\<rparr>],
      locationHistory = [],
      locations_id_seq = 3, favorite_locations_id_seq = 3, location_history_id_seq = 1\<rparr>"
  by (simp add: tie_store_def tokyo_def eval_defs paris_location_def)

lemma two_favorites_eq:
  "two_favorites = \<lparr>locations = [paris_location,
        \<lparr>loc_id = 2, loc_name = ''Tokyo'', loc_country = ''JP'', loc_state = None,
          loc_lat = 35.6762, loc_lon = 139.6503, loc_createdAt = 200, loc_updatedAt = 200\<rparr>],
      favoriteLocations = [
        \<lparr>fav_id = 1, fav_locationId = 1, fav_userId = None, fav_createdAt = 100\<rparr>,
        \<lparr>fav_id = 2, fav_locationId = 2, fav_userId = None, fav_createdAt = 200\<rparr>],
      locationHistory = [],
      locations_id_seq = 3, favorite_locations_id_seq = 3, location_history_id_seq = 1\<rparr>"
  by (simp add: two_favorites_def tokyo_def eval_defs paris_location_def)

section \<open>One row per location and identity\<close>



section \<open>Resolving a location twice\<close>

text \<open>
  Claim C2. Two requests with the same coordinates, each of them add-favorite or
  add-history, resolve to the same location: the first request leaves the locations table
  as its find-or-create step left it, the find-or-create step of the second request
  returns the same row and the state unchanged, the second request leaves the locations
  table as it found it, and each answer that carries a location carries this one.
\<close>

theorem resolve_twice_same_location:
  assumes r1: "r1 = post_favorites \<or> r1 = post_history"
    and r2: "r2 = post_favorites \<or> r2 = post_history"
    and p1: "insertLocationSchema_parse b1 = Some d1"
    and p2: "insertLocationSchema_parse b2 = Some d2"
    and lat: "ins_lat d2 = ins_lat d1"
    and lon: "ins_lon d2 = ins_lon d1"
    and first: "find_or_create s d1 t1 = (l1, sm)"
  shows "locations (snd (r1 s b1 t1)) = locations sm
       \<and> response_location (fst (r1 s b1 t1)) \<in> {None, Some l1}
       \<and> find_or_create (snd (r1 s b1 t1)) d2 t2 = (l1, snd (r1 s b1 t1))
       \<and> locations (snd (r2 (snd (r1 s b1 t1)) b2 t2)) = locations (snd (r1 s b1 t1))
       \<and> response_location (fst (r2 (snd (r1 s b1 t1)) b2 t2)) \<in> {None, Some l1}"
proof -
  let ?s1 = "snd (r1 s b1 t1)"
  from route_step [OF r1 p1 first]
  have locs: "locations ?s1 = locations sm"
    and resp1: "response_location (fst (r1 s b1 t1)) \<in> {None, Some l1}"
    by simp_all
  from find_or_create_found [OF first] lat lon
  have "findLocationByCoords sm (ins_lat d2) (ins_lon d2) = Some l1" by simp
  with locs have "findLocationByCoords ?s1 (ins_lat d2) (ins_lon d2) = Some l1"
    by (simp add: findLocationByCoords_def)
  then have second: "find_or_create ?s1 d2 t2 = (l1, ?s1)" by (rule find_or_create_hit)
  from route_step [OF r2 p2 second] locs resp1 second show ?thesis by simp
qed

theorem resolve_twice_same_location_witness:
  "insertLocationSchema_parse paris = Some paris_data
   \<and> find_or_create empty_store paris_data 100 = (paris_location, paris_created)
   \<and> post_history empty_store paris 100 = (HistoryAdded paris_location, paris_visited 1 100)
   \<and> loc_id paris_location = 1
   \<and> post_history (paris_visited 1 100) paris 200 = (HistoryAdded paris_location, paris_visited 2 200)
   \<and> find_or_create (paris_visited 1 100) paris_data 200 = (paris_location, paris_visited 1 100)
   \<and> locations (paris_visited 2 200) = locations (paris_visited 1 100)"
  using resolve_twice_same_location [of post_history post_history paris paris_data paris paris_data
      empty_store 100 paris_location paris_created 200]
  by (simp add: parse_paris create_paris visit_paris_1 visit_paris_next paris_location_def)

section \<open>Recording a visit\<close>



section \<open>Adding a favorite twice\<close>



section \<open>Adding, checking and removing a favorite\<close>




section \<open>Listing the history\<close>

text \<open>
  Claim C6. In a state that satisfies the constraints of the schema, and for every order
  in which the store scans the rows, \<^verbatim>\<open>getLocationHistory\<close> returns the locations of rows
  that are sorted by the time of the last visit, latest first; their number is the smaller
  of the limit and the number of entries of the identity, so 2 for five entries and limit 2;
  every row is an entry of the identity with the location it references; every entry left
  out was visited no later than each entry kept; and no limit means limit 10.
\<close>

theorem getLocationHistory_recent_first:
  assumes schema: "schema_constraints s"
    and scan: "mset (scan (history_join s userId)) = mset (history_join s userId)"
  shows "getLocationHistory s userId limit scan = map snd (history_rows s userId limit scan)
       \<and> sorted_wrt (\<lambda>a b. hist_lastVisited (fst b) \<le> hist_lastVisited (fst a))
           (history_rows s userId limit scan)
       \<and> length (getLocationHistory s userId limit scan) =
           min (case limit of None \<Rightarrow> 10 | Some n \<Rightarrow> n)
             (length (filter (\<lambda>h. hist_userId h = or_null userId) (locationHistory s)))
       \<and> mset (history_rows s userId limit scan) \<subseteq># mset (history_join s userId)
       \<and> (\<forall>older \<in># mset (history_join s userId) - mset (history_rows s userId limit scan).
            \<forall>kept \<in> set (history_rows s userId limit scan).
              hist_lastVisited (fst older) \<le> hist_lastVisited (fst kept))
       \<and> (\<forall>(h, l) \<in> set (history_rows s userId limit scan).
            h \<in> set (locationHistory s) \<and> hist_userId h = or_null userId
            \<and> l \<in> set (locations s) \<and> loc_id l = hist_locationId h)
       \<and> getLocationHistory s userId None scan = getLocationHistory s userId (Some 10) scan"
proof -
  let ?key = "\<lambda>r. hist_lastVisited (fst r)"
  let ?n = "case limit of None \<Rightarrow> 10 | Some n \<Rightarrow> n"
  let ?all = "order_by_desc ?key scan (history_join s userId)"
  have rows: "history_rows s userId limit scan = take ?n ?all"
    by (simp add: history_rows_def)
  have sorted_all: "sorted_wrt (\<lambda>a b. ?key b \<le> ?key a) ?all"
    by (rule order_by_desc_sorted)
  have mset_all: "mset ?all = mset (history_join s userId)"
    using scan by (rule order_by_desc_mset)
  have sorted: "sorted_wrt (\<lambda>a b. ?key b \<le> ?key a) (history_rows s userId limit scan)"
    unfolding rows using sorted_all by (rule sorted_wrt_take)
  from mset_all have "length ?all = length (history_join s userId)"
    by (rule mset_eq_length)
  also have "\<dots> = length (map fst (history_join s userId))" by simp
  also have "\<dots> = length (filter (\<lambda>h. hist_userId h = or_null userId) (locationHistory s))"
    by (simp only: history_join_fst [OF schema] user_where_iff)
  finally have len: "length (getLocationHistory s userId limit scan) =
      min ?n (length (filter (\<lambda>h. hist_userId h = or_null userId) (locationHistory s)))"
    by (simp add: getLocationHistory_def rows)
  have sub: "mset (history_rows s userId limit scan) \<subseteq># mset (history_join s userId)"
    unfolding rows mset_all [symmetric]
    by (metis append_take_drop_id mset_append mset_subset_eq_add_left)
  have rest: "mset (history_join s userId) - mset (history_rows s userId limit scan) =
      mset (drop ?n ?all)"
    unfolding rows mset_all [symmetric] by (rule mset_take_drop)
  have older: "\<forall>older \<in># mset (history_join s userId) - mset (history_rows s userId limit scan).
            \<forall>kept \<in> set (history_rows s userId limit scan). ?key older \<le> ?key kept"
  proof (intro ballI)
    fix older kept
    assume "older \<in># mset (history_join s userId) - mset (history_rows s userId limit scan)"
      and k: "kept \<in> set (history_rows s userId limit scan)"
    then have "older \<in> set (drop ?n ?all)" by (simp add: rest)
    moreover from k have "kept \<in> set (take ?n ?all)" by (simp add: rows)
    ultimately show "?key older \<le> ?key kept"
      using sorted_wrt_take_drop [OF sorted_all, of ?n] by blast
  qed
  have "set (history_rows s userId limit scan) \<subseteq> set (history_join s userId)"
    using sub by (metis set_mset_mono set_mset_mset)
  then have members: "\<forall>(h, l) \<in> set (history_rows s userId limit scan).
            h \<in> set (locationHistory s) \<and> hist_userId h = or_null userId
            \<and> l \<in> set (locations s) \<and> loc_id l = hist_locationId h"
    using history_join_set by blast
  have default: "getLocationHistory s userId None scan = getLocationHistory s userId (Some 10) scan"
    by (simp add: getLocationHistory_def history_rows_def)
  from sorted len sub older members default show ?thesis
    by (simp add: getLocationHistory_def)
qed

theorem getLocationHistory_recent_first_witness:
  "schema_constraints five_visits
   \<and> mset (rev (history_join five_visits None)) = mset (history_join five_visits None)
   \<and> length (filter (\<lambda>h. hist_userId h = or_null None) (locationHistory five_visits)) = 5
   \<and> getLocationHistory five_visits None (Some 2) rev = [city 1, city 5]
   \<and> length (getLocationHistory five_visits None (Some 2) rev) = 2
   \<and> map loc_id (getLocationHistory five_visits None None rev) = [1, 5, 4, 3, 2]"
proof -
  have schema: "schema_constraints five_visits"
    by (simp add: schema_constraints_def five_visits_def city_def entry_def location_exists_def)
  have scan: "mset (rev (history_join five_visits None)) = mset (history_join five_visits None)"
    by simp
  have five: "length (filter (\<lambda>h. hist_userId h = or_null None) (locationHistory five_visits)) = 5"
    by (simp add: five_visits_def entry_def)
  have two: "getLocationHistory five_visits None (Some 2) rev = [city 1, city 5]"
    by (simp add: five_visits_def query_defs city_def entry_def)
  have all: "map loc_id (getLocationHistory five_visits None None rev) = [1, 5, 4, 3, 2]"
    by (simp add: five_visits_def query_defs city_def entry_def)
  from getLocationHistory_recent_first [where s = five_visits and userId = None and scan = rev
      and limit = "Some 2", OF schema scan]
  have "length (getLocationHistory five_visits None (Some 2) rev) =
      min (case Some 2 of None \<Rightarrow> 10 | Some n \<Rightarrow> n)
        (length (filter (\<lambda>h. hist_userId h = or_null None) (locationHistory five_visits)))"
    by blast
  with five have "length (getLocationHistory five_visits None (Some 2) rev) = 2" by simp
  with schema scan five two all show ?thesis by blast
qed

section \<open>Clearing the history\<close>

text \<open>
  Claim C7. \<^verbatim>\<open>clearHistory\<close> keeps exactly the entries outside the scope of the identity
  (the entries with no identity when the identity is absent). The history of the identity
  is then empty; the entries and the history list of every identity with another scope are
  as before; favorites and locations are as before. The DELETE route answers success with
  this state.
\<close>

theorem clearHistory_frame:
  "locationHistory (clearHistory s userId) =
     filter (\<lambda>h. hist_userId h \<noteq> or_null userId) (locationHistory s)
   \<and> history_join (clearHistory s userId) userId = []
   \<and> (scan [] = [] \<longrightarrow> getLocationHistory (clearHistory s userId) userId limit scan = [])
   \<and> (or_null other \<noteq> or_null userId \<longrightarrow>
        filter (\<lambda>h. hist_userId h = or_null other) (locationHistory (clearHistory s userId)) =
          filter (\<lambda>h. hist_userId h = or_null other) (locationHistory s)
        \<and> getLocationHistory (clearHistory s userId) other limit' scan' =
            getLocationHistory s other limit' scan')
   \<and> favoriteLocations (clearHistory s userId) = favoriteLocations s
   \<and> locations (clearHistory s userId) = locations s
   \<and> delete_history s userId = (Success, clearHistory s userId)"
proof -
  have rows: "locationHistory (clearHistory s userId) =
     filter (\<lambda>h. hist_userId h \<noteq> or_null userId) (locationHistory s)"
    by (simp add: clearHistory_def user_where_iff)
  have empty: "history_join (clearHistory s userId) userId = []"
    by (simp add: history_join_def clearHistory_def)
  have list: "getLocationHistory (clearHistory s userId) userId limit scan = []" if "scan [] = []"
    using that empty by (simp add: getLocationHistory_def history_rows_def order_by_desc_def)
  have others: "filter (\<lambda>h. hist_userId h = or_null other) (locationHistory (clearHistory s userId)) =
          filter (\<lambda>h. hist_userId h = or_null other) (locationHistory s)"
    if "or_null other \<noteq> or_null userId"
    using that by (auto simp: rows intro: filter_cong)
  have other_list: "getLocationHistory (clearHistory s userId) other limit' scan' =
            getLocationHistory s other limit' scan'"
    if "or_null other \<noteq> or_null userId"
    using history_join_clear_other [OF that]
    by (simp add: getLocationHistory_def history_rows_def)
  have route: "delete_history s userId = (Success, clearHistory s userId)"
    by (simp add: delete_history_def clearHistory_def)
  from rows empty list others other_list route show ?thesis
    by (simp add: clearHistory_def)
qed

theorem clearHistory_frame_witness:
  "id [] = []
   \<and> or_null (Some ''u1'') \<noteq> or_null None
   \<and> getLocationHistory two_identities None None id = [paris_location]
   \<and> getLocationHistory (clearHistory two_identities None) None None id = []
   \<and> map loc_name (getLocationHistory (clearHistory two_identities None) (Some ''u1'') None id) =
       [''New York'']
   \<and> map hist_id (locationHistory (clearHistory two_identities None)) = [2]"
proof -
  have other: "or_null (Some ''u1'') \<noteq> or_null None" by (simp add: or_null_def)
  have before: "getLocationHistory two_identities None None id = [paris_location]"
    by (simp add: two_identities_eq getLocationHistory_def history_rows_def history_join_def
          order_by_desc_def user_where_def paris_location_def)
  have u1: "map loc_name (getLocationHistory two_identities (Some ''u1'') None id) = [''New York'']"
    by (simp add: two_identities_eq getLocationHistory_def history_rows_def history_join_def
          order_by_desc_def user_where_def paris_location_def)
  have rows: "map hist_id (filter (\<lambda>h. hist_userId h \<noteq> or_null None) (locationHistory two_identities)) = [2]"
    by (simp add: two_identities_eq)
  from clearHistory_frame [of two_identities None id None "Some ''u1''" None id] other before u1 rows
  show ?thesis by simp
qed

section \<open>Listing the favorites\<close>

text \<open>
  Two favorites created at the same time come back in the order of the scan: both orders
  of the two rows are results of the query in a state that two requests reach, so the
  identifier does not decide between them.
\<close>

theorem getFavoriteLocations_ties_counterexample:
  "reachable tie_store
   \<and> mset (rev (favorites_join tie_store None)) = mset (favorites_join tie_store None)
   \<and> map (\<lambda>r. (fav_id (fst r), fav_createdAt (fst r))) (favorite_rows tie_store None id) =
       [(1, 100), (2, 100)]
   \<and> map (\<lambda>r. (fav_id (fst r), fav_createdAt (fst r))) (favorite_rows tie_store None rev) =
       [(2, 100), (1, 100)]
   \<and> map loc_name (getFavoriteLocations tie_store None id) = [''Paris'', ''Tokyo'']
   \<and> map loc_name (getFavoriteLocations tie_store None rev) = [''Tokyo'', ''Paris'']"
proof -
  have "reachable (snd (post_favorites empty_store paris 100))"
    by (rule reachable.add_favorite) (rule reachable.init)
  then have "reachable tie_store"
    unfolding tie_store_def by (rule reachable.add_favorite)
  moreover have "mset (rev (favorites_join tie_store None)) = mset (favorites_join tie_store None)"
    by simp
  moreover have "map (\<lambda>r. (fav_id (fst r), fav_createdAt (fst r))) (favorite_rows tie_store None id) =
       [(1, 100), (2, 100)]"
    by (simp add: tie_store_eq query_defs paris_location_def)
  moreover have "map (\<lambda>r. (fav_id (fst r), fav_createdAt (fst r))) (favorite_rows tie_store None rev) =
       [(2, 100), (1, 100)]"
    by (simp add: tie_store_eq query_defs paris_location_def)
  moreover have "map loc_name (getFavoriteLocations tie_store None id) = [''Paris'', ''Tokyo'']"
    by (simp add: tie_store_eq query_defs paris_location_def)
  moreover have "map loc_name (getFavoriteLocations tie_store None rev) = [''Tokyo'', ''Paris'']"
    by (simp add: tie_store_eq query_defs paris_location_def)
  ultimately show ?thesis by blast
qed

text \<open>
  Claim C8, amended. In a state that satisfies the constraints of the schema, and for
  every order in which the store scans the rows, \<^verbatim>\<open>getFavoriteLocations\<close> returns the
  locations of rows sorted by the creation time of the favorite, latest first; the
  favorites among the rows are exactly the favorites of the identity, each with the
  location it references; for an absent identity they are exactly the favorites with no
  identity. Nothing is said about the order of favorites created at the same time.
\<close>

theorem getFavoriteLocations_newest_first:
  assumes schema: "schema_constraints s"
    and scan: "mset (scan (favorites_join s userId)) = mset (favorites_join s userId)"
  shows "getFavoriteLocations s userId scan = map snd (favorite_rows s userId scan)
       \<and> sorted_wrt (\<lambda>a b. fav_createdAt (fst b) \<le> fav_createdAt (fst a))
           (favorite_rows s userId scan)
       \<and> mset (map fst (favorite_rows s userId scan)) =
           mset (filter (\<lambda>f. fav_userId f = or_null userId) (favoriteLocations s))
       \<and> (\<forall>(f, l) \<in> set (favorite_rows s userId scan).
            l \<in> set (locations s) \<and> loc_id l = fav_locationId f)
       \<and> (\<not> truthy userId \<longrightarrow>
            mset (map fst (favorite_rows s userId scan)) =
              mset (filter (\<lambda>f. fav_userId f = None) (favoriteLocations s)))"
proof -
  have sorted: "sorted_wrt (\<lambda>a b. fav_createdAt (fst b) \<le> fav_createdAt (fst a))
           (favorite_rows s userId scan)"
    unfolding favorite_rows_def by (rule order_by_desc_sorted)
  have m: "mset (favorite_rows s userId scan) = mset (favorites_join s userId)"
    unfolding favorite_rows_def using scan by (rule order_by_desc_mset)
  then have "mset (map fst (favorite_rows s userId scan)) = mset (map fst (favorites_join s userId))"
    by (metis mset_map)
  then have scope: "mset (map fst (favorite_rows s userId scan)) =
           mset (filter (\<lambda>f. fav_userId f = or_null userId) (favoriteLocations s))"
    by (simp only: favorites_join_fst [OF schema] user_where_iff)
  from m have "set (favorite_rows s userId scan) = set (favorites_join s userId)"
    by (rule mset_eq_setD)
  then have members: "\<forall>(f, l) \<in> set (favorite_rows s userId scan).
            l \<in> set (locations s) \<and> loc_id l = fav_locationId f"
    using favorites_join_set by blast
  have anonymous: "mset (map fst (favorite_rows s userId scan)) =
              mset (filter (\<lambda>f. fav_userId f = None) (favoriteLocations s))"
    if "\<not> truthy userId"
    using that scope by (simp add: or_null_def)
  from sorted scope members anonymous show ?thesis
    by (simp add: getFavoriteLocations_def)
qed

theorem getFavoriteLocations_newest_first_witness:
  "schema_constraints two_favorites
   \<and> mset (rev (favorites_join two_favorites None)) = mset (favorites_join two_favorites None)
   \<and> \<not> truthy None
   \<and> map loc_name (getFavoriteLocations two_favorites None rev) = [''Tokyo'', ''Paris'']
   \<and> map (\<lambda>r. fav_createdAt (fst r)) (favorite_rows two_favorites None rev) = [200, 100]
   \<and> sorted_wrt (\<lambda>a b. fav_createdAt (fst b) \<le> fav_createdAt (fst a))
       (favorite_rows two_favorites None rev)
   \<and> getFavoriteLocations two_favorites (Some ''u1'') id = []"
proof -
  have "reachable (snd (post_favorites empty_store paris 100))"
    by (rule reachable.add_favorite) (rule reachable.init)
  then have "reachable two_favorites"
    unfolding two_favorites_def by (rule reachable.add_favorite)
  then have schema: "schema_constraints two_favorites" by (rule reachable_schema_constraints)
  have scan: "mset (rev (favorites_join two_favorites None)) = mset (favorites_join two_favorites None)"
    by simp
  have names: "map loc_name (getFavoriteLocations two_favorites None rev) = [''Tokyo'', ''Paris'']"
    by (simp add: two_favorites_eq query_defs paris_location_def)
  have times: "map (\<lambda>r. fav_createdAt (fst r)) (favorite_rows two_favorites None rev) = [200, 100]"
    by (simp add: two_favorites_eq query_defs paris_location_def)
  have other: "getFavoriteLocations two_favorites (Some ''u1'') id = []"
    by (simp add: two_favorites_eq query_defs paris_location_def)
  from getFavoriteLocations_newest_first [where s = two_favorites and userId = None and scan = rev,
      OF schema scan]
  have "sorted_wrt (\<lambda>a b. fav_createdAt (fst b) \<le> fav_createdAt (fst a))
       (favorite_rows two_favorites None rev)"
    by blast
  moreover have "\<not> truthy None" by simp
  ultimately show ?thesis using schema scan names times other by blast
qed

section \<open>Removing a favorite\<close>



section \<open>The empty identity\<close>

text \<open>
  Claim C10. The empty string as identity gives the same result and the same state as no
  identity, for listing favorites, checking and removing a favorite, the add-favorite
  route, listing history, recording a visit (directly and by the route) and clearing the
  history (directly and by the route).
\<close>

theorem empty_identity_is_anonymous:
  "getFavoriteLocations s (Some []) fscan = getFavoriteLocations s None fscan
   \<and> isFavorite s locationId (Some []) = isFavorite s locationId None
   \<and> removeFavorite s locationId (Some []) = removeFavorite s locationId None
   \<and> delete_favorite s locationId (Some []) = delete_favorite s locationId None
   \<and> post_favorites s (body\<lparr>body_userId := Some []\<rparr>) now =
       post_favorites s (body\<lparr>body_userId := None\<rparr>) now
   \<and> getLocationHistory s (Some []) limit hscan = getLocationHistory s None limit hscan
   \<and> addToHistory s locationId (Some []) now = addToHistory s locationId None now
   \<and> post_history s (body\<lparr>body_userId := Some []\<rparr>) now =
       post_history s (body\<lparr>body_userId := None\<rparr>) now
   \<and> clearHistory s (Some []) = clearHistory s None
   \<and> delete_history s (Some []) = delete_history s None"
proof -
  have "getFavoriteLocations s (Some []) fscan = getFavoriteLocations s None fscan"
    by (simp add: getFavoriteLocations_def favorite_rows_def favorites_join_def)
  moreover have "isFavorite s locationId (Some []) = isFavorite s locationId None"
    by (simp add: isFavorite_def)
  moreover have "removeFavorite s locationId (Some []) = removeFavorite s locationId None"
    by (simp add: removeFavorite_def)
  moreover have "delete_favorite s locationId (Some []) = delete_favorite s locationId None"
    by (simp add: delete_favorite_def removeFavorite_def)
  moreover have "post_favorites s (body\<lparr>body_userId := Some []\<rparr>) now =
       post_favorites s (body\<lparr>body_userId := None\<rparr>) now"
    by (simp add: post_favorites_def isFavorite_def split: option.splits prod.splits)
  moreover have "getLocationHistory s (Some []) limit hscan = getLocationHistory s None limit hscan"
    by (simp add: getLocationHistory_def history_rows_def history_join_def)
  moreover have "addToHistory s locationId (Some []) now = addToHistory s locationId None now"
    by (simp add: addToHistory_def split: option.splits)
  moreover have "post_history s (body\<lparr>body_userId := Some []\<rparr>) now =
       post_history s (body\<lparr>body_userId := None\<rparr>) now"
    by (simp add: post_history_def split: option.splits prod.splits)
  moreover have "clearHistory s (Some []) = clearHistory s None"
    by (simp add: clearHistory_def)
  moreover have "delete_history s (Some []) = delete_history s None"
    by (simp add: delete_history_def)
  ultimately show ?thesis by blast
qed

end
